theory Spec2Isabelle
  imports Complex_Main "HOL-Library.AList" "HOL-Library.Char_ord" "HOL-Library.List_Lexorder"
    "HOL-Library.Log_Nat"
begin

section \<open>Data model of \<^verbatim>\<open>app.py\<close>\<close>

text \<open>
  A Python \<^verbatim>\<open>datetime\<close> is a calendar date plus a time of day; \<^verbatim>\<open>.date()\<close> keeps
  the date. Dates compare as the tuples \<^verbatim>\<open>(year, month, day)\<close>.
\<close>

record date =
  year :: nat
  month :: nat
  day :: nat

record datetime =
  date_part :: date
  hour :: nat
  minute :: nat
  second :: nat
  microsecond :: nat

definition date_of :: "datetime \<Rightarrow> date" where
  "date_of ts = date_part ts"

definition date_less :: "date \<Rightarrow> date \<Rightarrow> bool" where
  "date_less a b \<longleftrightarrow>
     year a < year b \<or> (year a = year b \<and> (month a < month b \<or> (month a = month b \<and> day a < day b)))"

definition date_ge :: "date \<Rightarrow> date \<Rightarrow> bool" where
  "date_ge a b \<longleftrightarrow> \<not> date_less a b"

text \<open>
  The columns of \<^verbatim>\<open>Event\<close> (lines 18-26). \<^verbatim>\<open>position\<close> and \<^verbatim>\<open>event_type\<close> are
  free strings in the table; only \<^verbatim>\<open>add_event\<close> restricts them.
\<close>

record event =
  event_id :: int
  timestamp :: datetime
  position :: string
  event_type :: string
  on_target :: bool
  scored :: bool
  event_notes :: "string option"

text \<open>The columns of \<^verbatim>\<open>TrainingGoal\<close> (lines 31-35); the target is only passed through.\<close>

record 't training_goal =
  goal_id :: int
  metric :: string
  target :: 't
  created_at :: datetime

definition OUTFIELD_TYPES :: "string list" where
  "OUTFIELD_TYPES = [''shot'', ''goal'', ''assist'', ''pass'']"

definition KEEPER_TYPES :: "string list" where
  "KEEPER_TYPES = [''shot_on_goal_against'', ''save'', ''concede'']"

datatype py_error = ZeroDivisionError | BadRequestKeyError

section \<open>Arithmetic of the interpreter\<close>

text \<open>
  \<^verbatim>\<open>sum(1 for e in events if p(e))\<close>: the generator yields a 1 for every element that
  passes the test, and \<^verbatim>\<open>sum\<close> adds them up as an unbounded integer.
\<close>

definition sum_ones :: "('a \<Rightarrow> bool) \<Rightarrow> 'a list \<Rightarrow> int" where
  "sum_ones p xs = sum_list (map (\<lambda>e. 1) (filter p xs))"

text \<open>
  A finite double is a rational number. The result of a float operation is the exact
  result rounded to a double; the rounding function \<open>fl\<close> and the builtin
  \<^verbatim>\<open>round(x, ndigits)\<close> belong to the interpreter, not to the repository, and are
  parameters of the model.
\<close>

record float_arith =
  fl :: "rat \<Rightarrow> rat"
  round_ndigits :: "rat \<Rightarrow> int \<Rightarrow> rat"

text \<open>\<^verbatim>\<open>a / b\<close> on two ints: true division, raising on a zero divisor.\<close>

definition py_truediv :: "float_arith \<Rightarrow> int \<Rightarrow> int \<Rightarrow> py_error + rat" where
  "py_truediv fa a b = (if b = 0 then Inl ZeroDivisionError else Inr (fl fa (of_int a / of_int b)))"

text \<open>\<^verbatim>\<open>x * k\<close> on a float and an int.\<close>

definition py_mul :: "float_arith \<Rightarrow> rat \<Rightarrow> int \<Rightarrow> rat" where
  "py_mul fa x k = fl fa (x * of_int k)"

text \<open>\<^verbatim>\<open>(n / d * 100) if d else None\<close>, the expression of lines 93, 94, 101 and 166.\<close>

definition percent_if :: "float_arith \<Rightarrow> int \<Rightarrow> int \<Rightarrow> py_error + rat option" where
  "percent_if fa n d =
     (if d \<noteq> 0
      then (case py_truediv fa n d of
              Inl err \<Rightarrow> Inl err
            | Inr q \<Rightarrow> Inr (Some (py_mul fa q 100)))
      else Inr None)"

text \<open>\<^verbatim>\<open>round(x, 2) if x is not None else None\<close>, lines 137, 138 and 141.\<close>

definition round2_if :: "float_arith \<Rightarrow> rat option \<Rightarrow> rat option" where
  "round2_if fa x = (case x of Some v \<Rightarrow> Some (round_ndigits fa v 2) | None \<Rightarrow> None)"

subsection \<open>The arithmetic of doubles\<close>

text \<open>
  The arithmetic the interpreter runs on: IEEE 754 binary64 with rounding to nearest,
  ties to even. A positive ratio \<open>p / q\<close> lies in the binade \<open>2 ^ e \<le> p / q < 2 ^ (e + 1)\<close>
  and is rounded to the nearest multiple of \<open>2 ^ (e - 52)\<close>, of \<open>2 ^ - 1074\<close> below the
  normal range. Values of magnitude \<open>2 ^ 1024\<close> and more, where the machine overflows, are
  outside the model; no ratio of the counts of a collection that fits in memory is.
\<close>

definition nearest_even :: "int \<Rightarrow> int \<Rightarrow> int \<Rightarrow> int" where
  "nearest_even q r d =
     (if 2 * r < d then q else if d < 2 * r then q + 1 else if even q then q else q + 1)"

text \<open>The integer nearest to \<open>n / d\<close> for a positive \<open>d\<close>, a tie going to the even one.\<close>

definition round_half_even :: "int \<Rightarrow> int \<Rightarrow> int" where
  "round_half_even n d = nearest_even (n div d) (n mod d) d"

definition pow2 :: "int \<Rightarrow> rat" where
  "pow2 t = (if 0 \<le> t then 2 ^ nat t else 1 / 2 ^ nat (- t))"

text \<open>
  The binade of \<open>p / q\<close>: the difference \<open>k\<close> of the bit lengths of \<open>p\<close> and \<open>q\<close> has
  \<open>2 ^ (k - 1) < p / q < 2 ^ (k + 1)\<close>, so one comparison decides between \<open>k - 1\<close> and \<open>k\<close>.
\<close>

definition floor_log2_from :: "int \<Rightarrow> int \<Rightarrow> int \<Rightarrow> int" where
  "floor_log2_from p q k = (if p * 2 ^ nat (- k) < q * 2 ^ nat k then k - 1 else k)"

definition floor_log2 :: "int \<Rightarrow> int \<Rightarrow> int" where
  "floor_log2 p q = floor_log2_from p q (int (floorlog 2 (nat p)) - int (floorlog 2 (nat q)))"

definition round_to_grid :: "int \<Rightarrow> int \<Rightarrow> int \<Rightarrow> rat" where
  "round_to_grid p q t = of_int (round_half_even (p * 2 ^ nat (- t)) (q * 2 ^ nat t)) * pow2 t"

definition fl64_ratio :: "int \<Rightarrow> int \<Rightarrow> rat" where
  "fl64_ratio p q = round_to_grid p q (max (floor_log2 p q - 52) (- 1074))"

definition fl64 :: "rat \<Rightarrow> rat" where
  "fl64 x =
     (if x = 0 then 0
      else sgn x * fl64_ratio (fst (quotient_of \<bar>x\<bar>)) (snd (quotient_of \<bar>x\<bar>)))"

text \<open>
  \<^verbatim>\<open>round(x, ndigits)\<close> on a float: the decimal with \<^verbatim>\<open>ndigits\<close> places nearest to the
  value of \<open>x\<close>, a tie going to the even last digit, read back as the nearest double.
\<close>

definition py_round :: "rat \<Rightarrow> int \<Rightarrow> rat" where
  "py_round x ndigits =
     fl64 (of_int (round_half_even (fst (quotient_of x) * 10 ^ nat ndigits)
                     (snd (quotient_of x) * 10 ^ nat (- ndigits)))
           * 10 ^ nat (- ndigits) / 10 ^ nat ndigits)"

definition binary64_arith :: float_arith where
  "binary64_arith = \<lparr>fl = fl64, round_ndigits = py_round\<rparr>"

section \<open>The statistics of \<^verbatim>\<open>stats\<close> (lines 83-145)\<close>

subsection \<open>Outfield and keeper aggregates (lines 87-102)\<close>

definition total_shots :: "event list \<Rightarrow> int" where
  "total_shots events =
     sum_ones (\<lambda>e. position e = ''field'' \<and> event_type e = ''shot'') events"

definition total_on_target :: "event list \<Rightarrow> int" where
  "total_on_target events =
     sum_ones (\<lambda>e. position e = ''field'' \<and> event_type e = ''shot'' \<and> on_target e) events"

definition total_goals :: "event list \<Rightarrow> int" where
  "total_goals events =
     sum_ones (\<lambda>e. position e = ''field'' \<and>
                 (event_type e = ''goal'' \<or> (event_type e = ''shot'' \<and> scored e))) events"

definition total_assists :: "event list \<Rightarrow> int" where
  "total_assists events =
     sum_ones (\<lambda>e. position e = ''field'' \<and> event_type e = ''assist'') events"

definition total_passes :: "event list \<Rightarrow> int" where
  "total_passes events =
     sum_ones (\<lambda>e. position e = ''field'' \<and> event_type e = ''pass'') events"

definition goal_percentage :: "float_arith \<Rightarrow> event list \<Rightarrow> py_error + rat option" where
  "goal_percentage fa events = percent_if fa (total_goals events) (total_shots events)"

definition on_target_percentage :: "float_arith \<Rightarrow> event list \<Rightarrow> py_error + rat option" where
  "on_target_percentage fa events = percent_if fa (total_on_target events) (total_shots events)"

definition shots_on_against :: "event list \<Rightarrow> int" where
  "shots_on_against events =
     sum_ones (\<lambda>e. position e = ''keeper'' \<and> event_type e = ''shot_on_goal_against'') events"

definition saves :: "event list \<Rightarrow> int" where
  "saves events =
     sum_ones (\<lambda>e. position e = ''keeper'' \<and> event_type e = ''save'') events"

definition conceded :: "event list \<Rightarrow> int" where
  "conceded events =
     sum_ones (\<lambda>e. position e = ''keeper'' \<and> event_type e = ''concede'') events"

definition save_percentage :: "float_arith \<Rightarrow> event list \<Rightarrow> py_error + rat option" where
  "save_percentage fa events = percent_if fa (saves events) (shots_on_against events)"

definition goals_allowed :: "event list \<Rightarrow> int" where
  "goals_allowed events = conceded events"

subsection \<open>Goal progress (lines 147-173)\<close>

datatype progress_value = IntValue int | FloatValue rat | NoneValue

text \<open>
  \<open>utcnow\<close> is the reading of the clock, \<^verbatim>\<open>datetime.utcnow()\<close>. The target is an
  argument the function never reads.
\<close>

definition compute_goal_progress ::
  "float_arith \<Rightarrow> datetime \<Rightarrow> string \<Rightarrow> 't \<Rightarrow> event list \<Rightarrow> py_error + progress_value" where
  "compute_goal_progress fa utcnow metric_name target_value events =
     (if metric_name = ''goals_per_week'' then
        (let cutoff = date_of utcnow;
             last7 = filter (\<lambda>e. position e = ''field'' \<and>
                        (event_type e = ''goal'' \<or> (event_type e = ''shot'' \<and> scored e)) \<and>
                        date_ge (date_of (timestamp e)) cutoff) events
         in Inr (IntValue (int (length last7))))
      else if metric_name = ''save_percentage'' then
        (let shots_on = sum_ones (\<lambda>e. position e = ''keeper'' \<and>
                                      event_type e = ''shot_on_goal_against'') events;
             saves_count = sum_ones (\<lambda>e. position e = ''keeper'' \<and> event_type e = ''save'') events
         in (case percent_if fa saves_count shots_on of
               Inl err \<Rightarrow> Inl err
             | Inr None \<Rightarrow> Inr NoneValue
             | Inr (Some v) \<Rightarrow> Inr (FloatValue v)))
      else if metric_name = ''shots_per_training'' then
        (let shot_total = sum_ones (\<lambda>e. position e = ''field'' \<and> event_type e = ''shot'') events
         in Inr (IntValue shot_total))
      else Inr NoneValue)"

record 't progress_entry =
  entry_metric :: string
  entry_target :: 't
  entry_progress :: progress_value

text \<open>
  The loop of lines 106-109, appending one entry per training goal. Every call of
  \<^verbatim>\<open>compute_goal_progress\<close> reads the clock for itself: \<open>clock i\<close> is the reading
  during the call for the goal at position \<open>i\<close>.
\<close>

fun goals_progress ::
  "float_arith \<Rightarrow> (nat \<Rightarrow> datetime) \<Rightarrow> event list \<Rightarrow> 't training_goal list \<Rightarrow>
     py_error + 't progress_entry list" where
  "goals_progress fa clock events [] = Inr []"
| "goals_progress fa clock events (g # gs) =
     (case compute_goal_progress fa (clock 0) (metric g) (target g) events of
        Inl err \<Rightarrow> Inl err
      | Inr prog \<Rightarrow>
          (case goals_progress fa (\<lambda>i. clock (Suc i)) events gs of
             Inl err \<Rightarrow> Inl err
           | Inr rest \<Rightarrow>
               Inr (\<lparr>entry_metric = metric g, entry_target = target g, entry_progress = prog\<rparr> # rest)))"

subsection \<open>The series by date (lines 112-129)\<close>

text \<open>\<^verbatim>\<open>date.isoformat()\<close> is \<^verbatim>\<open>"%04d-%02d-%02d" % (year, month, day)\<close>.\<close>

definition digit_char :: "nat \<Rightarrow> char" where
  "digit_char n = char_of (48 + n)"

fun decimal :: "nat \<Rightarrow> string" where
  "decimal n = (if n < 10 then [digit_char n] else decimal (n div 10) @ [digit_char (n mod 10)])"

declare decimal.simps [simp del]

definition zero_pad :: "nat \<Rightarrow> nat \<Rightarrow> string" where
  "zero_pad w n = replicate (w - length (decimal n)) (CHR ''0'') @ decimal n"

definition isoformat :: "date \<Rightarrow> string" where
  "isoformat d = zero_pad 4 (year d) @ ''-'' @ zero_pad 2 (month d) @ ''-'' @ zero_pad 2 (day d)"

text \<open>
  \<^verbatim>\<open>by_date\<close> is a \<^verbatim>\<open>defaultdict\<close> whose values are the dicts
  \<^verbatim>\<open>{'goals': g, 'shots': s}\<close>; it is kept as an association list in insertion order.
  Reading a missing key gives the default and stores it.
\<close>

record day_counts =
  day_goals :: int
  day_shots :: int

definition default_counts :: day_counts where
  "default_counts = \<lparr>day_goals = 0, day_shots = 0\<rparr>"

definition getitem :: "(string \<times> day_counts) list \<Rightarrow> string \<Rightarrow> day_counts" where
  "getitem m k = (case map_of m k of Some c \<Rightarrow> c | None \<Rightarrow> default_counts)"

definition add_goal :: "string \<Rightarrow> (string \<times> day_counts) list \<Rightarrow> (string \<times> day_counts) list" where
  "add_goal k m = AList.update k ((getitem m k)\<lparr>day_goals := day_goals (getitem m k) + 1\<rparr>) m"

definition add_shot :: "string \<Rightarrow> (string \<times> day_counts) list \<Rightarrow> (string \<times> day_counts) list" where
  "add_shot k m = AList.update k ((getitem m k)\<lparr>day_shots := day_shots (getitem m k) + 1\<rparr>) m"

definition by_date_step :: "event \<Rightarrow> (string \<times> day_counts) list \<Rightarrow> (string \<times> day_counts) list" where
  "by_date_step e m =
     (let day_key = isoformat (date_of (timestamp e));
          m1 = (if position e = ''field'' \<and>
                   (event_type e = ''goal'' \<or> (event_type e = ''shot'' \<and> scored e))
                then add_goal day_key m else m)
      in if position e = ''field'' \<and> event_type e = ''shot'' then add_shot day_key m1 else m1)"

definition by_date :: "event list \<Rightarrow> (string \<times> day_counts) list" where
  "by_date events = fold by_date_step events []"

record chart =
  labels :: "string list"
  goals :: "int list"
  shots :: "int list"

definition chart_data :: "event list \<Rightarrow> chart" where
  "chart_data events =
     (let m = by_date events;
          dates = sort (map fst m)
      in \<lparr>labels = dates,
          goals = map (\<lambda>d. day_goals (getitem m d)) dates,
          shots = map (\<lambda>d. day_shots (getitem m d)) dates\<rparr>)"

subsection \<open>The values handed to the template (lines 131-145)\<close>

record 't stats_context =
  ctx_total_shots :: int
  ctx_total_on_target :: int
  ctx_total_goals :: int
  ctx_total_assists :: int
  ctx_total_passes :: int
  ctx_goal_percentage :: "rat option"
  ctx_on_target_percentage :: "rat option"
  ctx_shots_on_against :: int
  ctx_saves :: int
  ctx_save_percentage :: "rat option"
  ctx_goals_allowed :: int
  ctx_goals_progress :: "'t progress_entry list"
  ctx_chart_data :: chart

text \<open>
  \<open>events\<close> and \<open>training_goals\<close> are the rows that \<^verbatim>\<open>Event.query.all()\<close> and
  \<^verbatim>\<open>TrainingGoal.query.all()\<close> return; \<open>clock\<close> gives the readings of the clock
  during the loop over the training goals.
\<close>

definition stats ::
  "float_arith \<Rightarrow> (nat \<Rightarrow> datetime) \<Rightarrow> 't training_goal list \<Rightarrow> event list \<Rightarrow>
     py_error + 't stats_context" where
  "stats fa clock training_goals events =
     (case goal_percentage fa events of
        Inl err \<Rightarrow> Inl err
      | Inr gp \<Rightarrow>
     (case on_target_percentage fa events of
        Inl err \<Rightarrow> Inl err
      | Inr otp \<Rightarrow>
     (case save_percentage fa events of
        Inl err \<Rightarrow> Inl err
      | Inr sp \<Rightarrow>
     (case goals_progress fa clock events training_goals of
        Inl err \<Rightarrow> Inl err
      | Inr progress \<Rightarrow>
          Inr \<lparr>ctx_total_shots = total_shots events,
               ctx_total_on_target = total_on_target events,
               ctx_total_goals = total_goals events,
               ctx_total_assists = total_assists events,
               ctx_total_passes = total_passes events,
               ctx_goal_percentage = round2_if fa gp,
               ctx_on_target_percentage = round2_if fa otp,
               ctx_shots_on_against = shots_on_against events,
               ctx_saves = saves events,
               ctx_save_percentage = round2_if fa sp,
               ctx_goals_allowed = goals_allowed events,
               ctx_goals_progress = progress,
               ctx_chart_data = chart_data events\<rparr>))))"

section \<open>The JSON summary of \<^verbatim>\<open>api_stats\<close> (lines 203-211)\<close>

record api_summary =
  json_total_shots :: int
  json_total_goals :: int
  json_total_assists :: int
  json_keeper_saves :: int

definition api_stats :: "event list \<Rightarrow> api_summary" where
  "api_stats events =
     \<lparr>json_total_shots =
        sum_ones (\<lambda>e. position e = ''field'' \<and> event_type e = ''shot'') events,
      json_total_goals =
        sum_ones (\<lambda>e. position e = ''field'' \<and>
                    (event_type e = ''goal'' \<or> (event_type e = ''shot'' \<and> scored e))) events,
      json_total_assists =
        sum_ones (\<lambda>e. position e = ''field'' \<and> event_type e = ''assist'') events,
      json_keeper_saves =
        sum_ones (\<lambda>e. position e = ''keeper'' \<and> event_type e = ''save'') events\<rparr>"

section \<open>Submitting an event: \<^verbatim>\<open>add_event\<close> (lines 53-79)\<close>

datatype http_method = GET | POST

text \<open>
  A response is a redirect to an endpoint after flashing a message with a category, or
  the rendered form.
\<close>

datatype response = Redirect string string string | Render string

text \<open>
  \<^verbatim>\<open>str.strip()\<close>. A \<open>char\<close> stands for a code point below 256; among these the
  whitespace of \<^verbatim>\<open>str.isspace\<close> is 9 to 13, 28 to 32, 133 and 160.
\<close>

definition py_isspace :: "char \<Rightarrow> bool" where
  "py_isspace c \<longleftrightarrow>
     of_char c \<in> set [9, 10, 11, 12, 13, 28, 29, 30, 31, 32, 133, 160 :: nat]"

definition py_strip :: "string \<Rightarrow> string" where
  "py_strip s = rev (dropWhile py_isspace (rev (dropWhile py_isspace s)))"

text \<open>
  The key the table gives a new row: 1 in an empty table, otherwise one more than the
  largest key in use. (At the largest key \<open>2 ^ 63 - 1\<close> the table tries unused keys at
  random instead; that case is not modelled.)
\<close>

definition next_id :: "event list \<Rightarrow> int" where
  "next_id db =
     (case db of
        [] \<Rightarrow> 1
      | e # es \<Rightarrow> fold max (map event_id es) (event_id e) + 1)"

text \<open>
  The form is a map from field names to values; \<^verbatim>\<open>request.form[k]\<close> on a missing key
  raises (the client gets a 400), \<^verbatim>\<open>request.form.get(k)\<close> gives \<^verbatim>\<open>None\<close>. The state
  is the list of stored events; a new event gets the clock reading as timestamp.
\<close>

definition add_event ::
  "http_method \<Rightarrow> (string \<rightharpoonup> string) \<Rightarrow> datetime \<Rightarrow> event list \<Rightarrow> py_error + (response \<times> event list)" where
  "add_event method form utcnow db =
     (if method = POST then
        (case form ''position'' of
           None \<Rightarrow> Inl BadRequestKeyError
         | Some pos \<Rightarrow>
        (case form ''event_type'' of
           None \<Rightarrow> Inl BadRequestKeyError
         | Some etype \<Rightarrow>
            (let stripped = py_strip (case form ''notes'' of Some s \<Rightarrow> s | None \<Rightarrow> []);
                 notes_value = (if stripped = [] then None else Some stripped);
                 on_target_value = (form ''on_target'' = Some ''yes'');
                 scored_value = (form ''scored'' = Some ''yes'')
             in if pos \<notin> set [''field'', ''keeper''] then
                  Inr (Redirect ''add_event'' ''Invalid position'' ''danger'', db)
                else if pos = ''field'' \<and> etype \<notin> set OUTFIELD_TYPES then
                  Inr (Redirect ''add_event'' ''Invalid outfield event type'' ''danger'', db)
                else if pos = ''keeper'' \<and> etype \<notin> set KEEPER_TYPES then
                  Inr (Redirect ''add_event'' ''Invalid keeper event type'' ''danger'', db)
                else
                  (let ev = \<lparr>event_id = next_id db, timestamp = utcnow, position = pos,
                             event_type = etype, on_target = on_target_value,
                             scored = scored_value, event_notes = notes_value\<rparr>
                   in Inr (Redirect ''index'' ''Event added!'' ''success'', db @ [ev])))))
      else Inr (Render ''add_event.html'', db))"

section \<open>Notions used to state the properties\<close>

text \<open>
  The invariant of the data model: the event type belongs to the vocabulary of the
  position. It is what \<^verbatim>\<open>add_event\<close> checks before a row is stored.
\<close>

definition vocabulary_ok :: "event \<Rightarrow> bool" where
  "vocabulary_ok e \<longleftrightarrow>
     (position e = ''field'' \<and> event_type e \<in> set OUTFIELD_TYPES) \<or>
     (position e = ''keeper'' \<and> event_type e \<in> set KEEPER_TYPES)"

text \<open>The number of events of type \<^verbatim>\<open>goal\<close>, whatever their position.\<close>

definition goal_type_count :: "event list \<Rightarrow> int" where
  "goal_type_count events = int (length (filter (\<lambda>e. event_type e = ''goal'') events))"

text \<open>
  Two facts about rounding to a double that the bounds on a percentage rest on: rounding
  is monotone, and an integer of magnitude at most \<open>2 ^ 53\<close> is a double.
\<close>

definition rounds_like_double :: "(rat \<Rightarrow> rat) \<Rightarrow> bool" where
  "rounds_like_double f \<longleftrightarrow>
     (\<forall>x y. x \<le> y \<longrightarrow> f x \<le> f y) \<and>
     (\<forall>k::int. \<bar>k\<bar> \<le> 2 ^ 53 \<longrightarrow> f (of_int k) = of_int k)"

text \<open>
  The events the series counts: a field event that is a goal or a scored shot, and a
  field shot; the key an event is filed under, and its calendar date.
\<close>

abbreviation goal_or_scored :: "event \<Rightarrow> bool" where
  "goal_or_scored e \<equiv>
     position e = ''field'' \<and> (event_type e = ''goal'' \<or> (event_type e = ''shot'' \<and> scored e))"

abbreviation field_shot :: "event \<Rightarrow> bool" where
  "field_shot e \<equiv> position e = ''field'' \<and> event_type e = ''shot''"

abbreviation day_key :: "event \<Rightarrow> string" where
  "day_key e \<equiv> isoformat (date_of (timestamp e))"

abbreviation event_date :: "event \<Rightarrow> date" where
  "event_date e \<equiv> date_of (timestamp e)"

text \<open>
  A date whose fields fill the widths of the format at most. Every \<^verbatim>\<open>date\<close> of the
  interpreter is one: its year is at most 9999, its month at most 12, its day at most 31.
\<close>

definition fits_isoformat :: "date \<Rightarrow> bool" where
  "fits_isoformat d \<longleftrightarrow> year d < 10000 \<and> month d < 100 \<and> day d < 100"

text \<open>The last \<open>w\<close> decimal digits of a number, for the proofs about the format.\<close>

primrec fixed_width :: "nat \<Rightarrow> nat \<Rightarrow> string" where
  "fixed_width 0 n = []"
| "fixed_width (Suc w) n = fixed_width w (n div 10) @ [digit_char (n mod 10)]"

text \<open>Rows, an arithmetic and a clock reading for the examples.\<close>

definition mk_event :: "string \<Rightarrow> string \<Rightarrow> bool \<Rightarrow> bool \<Rightarrow> nat \<Rightarrow> nat \<Rightarrow> nat \<Rightarrow> event" where
  "mk_event pos etype ot sc y m d =
     \<lparr>event_id = 1,
      timestamp = \<lparr>date_part = \<lparr>year = y, month = m, day = d\<rparr>,
                   hour = 18, minute = 30, second = 0, microsecond = 0\<rparr>,
      position = pos, event_type = etype, on_target = ot, scored = sc, event_notes = None\<rparr>"

definition exact_arith :: float_arith where
  "exact_arith =
     \<lparr>fl = (\<lambda>x. x),
      round_ndigits = (\<lambda>x n. of_int (round (x * 10 ^ nat n)) / 10 ^ nat n)\<rparr>"

text \<open>An arithmetic that loses digits: every result is cut to a multiple of 1/1024.\<close>

definition coarse_arith :: float_arith where
  "coarse_arith =
     \<lparr>fl = (\<lambda>x. of_int \<lfloor>x * 1024\<rfloor> / 1024),
      round_ndigits = (\<lambda>x n. of_int (round (x * 10 ^ nat n)) / 10 ^ nat n)\<rparr>"

definition noon :: datetime where
  "noon = \<lparr>date_part = \<lparr>year = 2024, month = 5, day = 17\<rparr>,
           hour = 12, minute = 0, second = 0, microsecond = 0\<rparr>"

definition noon_clock :: "nat \<Rightarrow> datetime" where
  "noon_clock i = noon"

text \<open>
  The integer nearest to \<open>n / d\<close> for a positive \<open>d\<close>, a tie going up: the other usual
  convention for rounding.
\<close>

definition round_half_up :: "int \<Rightarrow> int \<Rightarrow> int" where
  "round_half_up n d = (2 * n + d) div (2 * d)"

section \<open>Basic facts\<close>

lemma sum_ones_length: "sum_ones p xs = int (length (filter p xs))"
  unfolding sum_ones_def by (induction xs) auto

lemma percent_if_eq:
  "percent_if fa n d =
     Inr (if d = 0 then None else Some (fl fa (fl fa (of_int n / of_int d) * 100)))"
  by (simp add: percent_if_def py_truediv_def py_mul_def)

lemma compute_goal_progress_returns:
  "\<exists>v. compute_goal_progress fa utcnow m t events = Inr v"
  by (simp add: compute_goal_progress_def percent_if_eq Let_def)

lemma goals_progress_returns: "\<exists>ps. goals_progress fa clock events gs = Inr ps"
proof (induction gs arbitrary: clock)
  case Nil
  show ?case by simp
next
  case (Cons g gs)
  obtain v where v: "compute_goal_progress fa (clock 0) (metric g) (target g) events = Inr v"
    using compute_goal_progress_returns [of fa "clock 0" "metric g" "target g" events] by blast
  from Cons [of "\<lambda>i. clock (Suc i)"]
  obtain ps where "goals_progress fa (\<lambda>i. clock (Suc i)) events gs = Inr ps" by blast
  with v show ?case by simp
qed

text \<open>The request for the statistics page always returns, with these values.\<close>

lemma stats_returns:
  "\<exists>progress. goals_progress fa clock events gs = Inr progress \<and>
     stats fa clock gs events =
       Inr \<lparr>ctx_total_shots = total_shots events,
            ctx_total_on_target = total_on_target events,
            ctx_total_goals = total_goals events,
            ctx_total_assists = total_assists events,
            ctx_total_passes = total_passes events,
            ctx_goal_percentage = round2_if fa
              (if total_shots events = 0 then None
               else Some (fl fa (fl fa (of_int (total_goals events) / of_int (total_shots events)) * 100))),
            ctx_on_target_percentage = round2_if fa
              (if total_shots events = 0 then None
               else Some (fl fa (fl fa (of_int (total_on_target events) / of_int (total_shots events)) * 100))),
            ctx_shots_on_against = shots_on_against events,
            ctx_saves = saves events,
            ctx_save_percentage = round2_if fa
              (if shots_on_against events = 0 then None
               else Some (fl fa (fl fa (of_int (saves events) / of_int (shots_on_against events)) * 100))),
            ctx_goals_allowed = goals_allowed events,
            ctx_goals_progress = progress,
            ctx_chart_data = chart_data events\<rparr>"
proof -
  obtain ps where "goals_progress fa clock events gs = Inr ps"
    using goals_progress_returns by blast
  then show ?thesis
    by (simp add: stats_def goal_percentage_def on_target_percentage_def
        save_percentage_def percent_if_eq)
qed

lemma filter_goal_le:
  "\<forall>e\<in>set events. event_type e = ''goal'' \<longrightarrow> position e = ''field'' \<Longrightarrow>
   length (filter (\<lambda>e. event_type e = ''goal'') events)
   \<le> length (filter (\<lambda>e. position e = ''field'' \<and>
          (event_type e = ''goal'' \<or> (event_type e = ''shot'' \<and> scored e))) events)"
  by (induction events) auto

lemma vocabulary_goal_field:
  "vocabulary_ok e \<Longrightarrow> event_type e = ''goal'' \<Longrightarrow> position e = ''field''"
  by (auto simp: vocabulary_ok_def KEEPER_TYPES_def)

text \<open>The events that \<^verbatim>\<open>add_event\<close> lets through have their goals on the field.\<close>

lemma vocabulary_goals_on_field:
  "list_all vocabulary_ok events \<Longrightarrow>
   list_all (\<lambda>e. event_type e = ''goal'' \<longrightarrow> position e = ''field'') events"
  using vocabulary_goal_field by (auto simp: list_all_iff)

lemma sum_ones_mono_pred: "(\<And>e. p e \<Longrightarrow> q e) \<Longrightarrow> sum_ones p xs \<le> sum_ones q xs"
  unfolding sum_ones_def by (induction xs) auto

lemma sum_ones_nonneg: "0 \<le> sum_ones p xs"
  by (simp add: sum_ones_length)

lemma sum_ones_insert_le: "sum_ones p (xs @ ys) \<le> sum_ones p (xs @ e # ys)"
  by (simp add: sum_ones_def)

lemma on_target_le_shots: "total_on_target events \<le> total_shots events"
  unfolding total_on_target_def total_shots_def by (rule sum_ones_mono_pred) simp

text \<open>A ratio between 0 and 1 stays a percentage between 0 and 100 after both roundings.\<close>

lemma rounded_percent_bounds:
  assumes f: "rounds_like_double f" and n: "0 \<le> n" "n \<le> d" and d: "d \<noteq> 0"
  shows "0 \<le> f (f (of_int n / of_int d) * 100) \<and> f (f (of_int n / of_int d) * 100) \<le> 100"
proof -
  have mono: "\<And>x y. x \<le> y \<Longrightarrow> f x \<le> f y"
    using f by (simp add: rounds_like_double_def)
  have exact: "\<And>k::int. \<bar>k\<bar> \<le> 2 ^ 53 \<Longrightarrow> f (of_int k) = of_int k"
    using f by (simp add: rounds_like_double_def)
  have f0: "f 0 = 0" using exact [of 0] by simp
  have f1: "f 1 = 1" using exact [of 1] by simp
  have f100: "f 100 = 100" using exact [of 100] by simp
  from n d have dpos: "0 < d" by simp
  have q0: "(0::rat) \<le> of_int n / of_int d" using n dpos by simp
  have q1: "(of_int n / of_int d :: rat) \<le> 1" using n dpos by simp
  have r0: "0 \<le> f (of_int n / of_int d)" using mono [OF q0] f0 by simp
  have r1: "f (of_int n / of_int d) \<le> 1" using mono [OF q1] f1 by simp
  have "f 0 \<le> f (f (of_int n / of_int d) * 100)" using r0 by (intro mono) simp
  moreover have "f (f (of_int n / of_int d) * 100) \<le> f 100" using r1 by (intro mono) simp
  ultimately show ?thesis using f0 f100 by simp
qed

lemma coarse_rounds_like_double: "rounds_like_double (fl coarse_arith)"
proof -
  have "\<lfloor>x * 1024\<rfloor> \<le> \<lfloor>y * 1024\<rfloor>" if "x \<le> y" for x y :: rat
    using that by (intro floor_mono) simp
  moreover have "\<lfloor>(of_int k :: rat) * 1024\<rfloor> = k * 1024" for k :: int
    using floor_of_int [of "k * 1024", where ?'a = rat] by simp
  ultimately show ?thesis
    by (simp add: rounds_like_double_def coarse_arith_def divide_right_mono)
qed

text \<open>What \<^verbatim>\<open>add_event\<close> does outside a well-formed submission, and what it keeps.\<close>

lemma add_event_missing_key:
  "form ''position'' = None \<or> form ''event_type'' = None \<Longrightarrow>
   add_event POST form utcnow db = Inl BadRequestKeyError"
  by (auto simp: add_event_def split: option.splits)

lemma add_event_get: "add_event GET form utcnow db = Inr (Render ''add_event.html'', db)"
  by (simp add: add_event_def)

lemma add_event_keeps_vocabulary:
  assumes "add_event method form utcnow db = Inr (r, db')" and "list_all vocabulary_ok db"
  shows "list_all vocabulary_ok db'"
  using assms
  by (auto simp: add_event_def Let_def vocabulary_ok_def
      split: if_splits option.splits)

text \<open>The format of a date keeps the order of dates.\<close>

lemma digit_char_zero: "digit_char 0 = CHR ''0''"
  by (simp add: digit_char_def char_of_def bit_iff_odd)

lemma digit_char_less: "a < 10 \<Longrightarrow> b < 10 \<Longrightarrow> digit_char a < digit_char b \<longleftrightarrow> a < b"
  by (simp add: digit_char_def less_char_def)

lemma digit_char_eq: "a < 10 \<Longrightarrow> b < 10 \<Longrightarrow> digit_char a = digit_char b \<longleftrightarrow> a = b"
  using digit_char_less [of a b] digit_char_less [of b a] by (auto simp: not_less_iff_gr_or_eq)

lemma length_fixed_width [simp]: "length (fixed_width w n) = w"
  by (induction w arbitrary: n) auto

lemma fixed_width_zero: "fixed_width w 0 = replicate w (CHR ''0'')"
  by (induction w) (auto simp: digit_char_zero replicate_append_same)

lemma div10_less: "n < 10 ^ Suc v \<Longrightarrow> n div 10 < 10 ^ v" for n :: nat
  by (simp add: less_mult_imp_div_less mult.commute)

lemma append_less_same_length:
  "length xs = length ys \<Longrightarrow> xs @ us < ys @ vs \<longleftrightarrow> xs < ys \<or> (xs = ys \<and> us < vs)"
  for xs ys :: "'a::linorder list"
  by (induction xs ys rule: list_induct2) auto

lemma less_two_digits:
  "r < 10 \<Longrightarrow> s < 10 \<Longrightarrow> 10 * a + r < 10 * b + s \<longleftrightarrow> a < b \<or> (a = b \<and> r < s)" for a b r s :: nat
  by arith

lemma eq_two_digits:
  "r < 10 \<Longrightarrow> s < 10 \<Longrightarrow> 10 * a + r = 10 * b + s \<longleftrightarrow> a = b \<and> r = s" for a b r s :: nat
  by arith

lemma less_by_digits:
  "n < m \<longleftrightarrow> n div 10 < m div 10 \<or> (n div 10 = m div 10 \<and> n mod 10 < m mod 10)" for n m :: nat
  using less_two_digits [of "n mod 10" "m mod 10" "n div 10" "m div 10"] by simp

lemma eq_by_digits:
  "n = m \<longleftrightarrow> n div 10 = m div 10 \<and> n mod 10 = m mod 10" for n m :: nat
  using eq_two_digits [of "n mod 10" "m mod 10" "n div 10" "m div 10"] by simp

lemma zero_pad_fixed_width:
  "0 < w \<Longrightarrow> n < 10 ^ w \<Longrightarrow>
   length (decimal n) \<le> w \<and> replicate (w - length (decimal n)) (CHR ''0'') @ decimal n = fixed_width w n"
proof (induction n arbitrary: w rule: decimal.induct)
  case (1 n)
  from \<open>0 < w\<close> obtain v where w: "w = Suc v" by (cases w) auto
  show ?case
  proof (cases "n < 10")
    case True
    then show ?thesis
      by (simp add: w decimal.simps [of n] fixed_width_zero)
  next
    case False
    from "1.prems" w have dv: "n div 10 < 10 ^ v" by (simp add: div10_less)
    have "0 < v"
    proof (rule Nat.gr0I)
      assume "v = 0"
      with "1.prems" w False show False by simp
    qed
    from "1.IH" [OF False this dv]
    show ?thesis using False
      by (simp add: w decimal.simps [of n] Suc_diff_le)
  qed
qed

lemma zero_pad_eq: "0 < w \<Longrightarrow> n < 10 ^ w \<Longrightarrow> zero_pad w n = fixed_width w n"
  by (simp add: zero_pad_def zero_pad_fixed_width)

lemma fixed_width_less:
  "n < 10 ^ w \<Longrightarrow> m < 10 ^ w \<Longrightarrow>
   (fixed_width w n < fixed_width w m \<longleftrightarrow> n < m) \<and> (fixed_width w n = fixed_width w m \<longleftrightarrow> n = m)"
proof (induction w arbitrary: n m)
  case 0
  then show ?case by simp
next
  case (Suc w)
  then have "n div 10 < 10 ^ w" "m div 10 < 10 ^ w"
    by (simp_all add: div10_less)
  from Suc.IH [OF this]
  have lt: "fixed_width w (n div 10) < fixed_width w (m div 10) \<longleftrightarrow> n div 10 < m div 10"
    and eq: "fixed_width w (n div 10) = fixed_width w (m div 10) \<longleftrightarrow> n div 10 = m div 10"
    by simp_all
  show ?case
    unfolding fixed_width.simps less_by_digits [of n m] eq_by_digits [of n m]
    by (simp add: append_less_same_length lt eq digit_char_less digit_char_eq)
qed

lemma isoformat_fixed:
  "fits_isoformat d \<Longrightarrow>
   isoformat d = fixed_width 4 (year d) @ ''-'' @ fixed_width 2 (month d) @ ''-'' @ fixed_width 2 (day d)"
  by (simp add: isoformat_def fits_isoformat_def zero_pad_eq)

lemma isoformat_less:
  assumes "fits_isoformat a" and "fits_isoformat b"
  shows "isoformat a < isoformat b \<longleftrightarrow> date_less a b"
proof -
  from assms have y: "year a < 10 ^ 4" "year b < 10 ^ 4"
    and m: "month a < 10 ^ 2" "month b < 10 ^ 2"
    and d: "day a < 10 ^ 2" "day b < 10 ^ 2"
    by (simp_all add: fits_isoformat_def)
  note fy = fixed_width_less [OF y] and fm = fixed_width_less [OF m] and fd = fixed_width_less [OF d]
  have "isoformat a < isoformat b \<longleftrightarrow>
        fixed_width 4 (year a) < fixed_width 4 (year b) \<or>
        (fixed_width 4 (year a) = fixed_width 4 (year b) \<and>
          (fixed_width 2 (month a) < fixed_width 2 (month b) \<or>
           (fixed_width 2 (month a) = fixed_width 2 (month b) \<and>
            fixed_width 2 (day a) < fixed_width 2 (day b))))"
    unfolding isoformat_fixed [OF assms(1)] isoformat_fixed [OF assms(2)]
    by (simp add: append_less_same_length del: fixed_width.simps)
  then show ?thesis
    unfolding date_less_def using fy fm fd by simp
qed

lemma isoformat_inj:
  assumes "fits_isoformat a" and "fits_isoformat b" and "isoformat a = isoformat b"
  shows "a = b"
proof -
  from assms have y: "year a < 10 ^ 4" "year b < 10 ^ 4"
    and m: "month a < 10 ^ 2" "month b < 10 ^ 2"
    and d: "day a < 10 ^ 2" "day b < 10 ^ 2"
    by (simp_all add: fits_isoformat_def)
  note fy = fixed_width_less [OF y] and fm = fixed_width_less [OF m] and fd = fixed_width_less [OF d]
  from assms(3) have "fixed_width 4 (year a) = fixed_width 4 (year b) \<and>
      fixed_width 2 (month a) = fixed_width 2 (month b) \<and>
      fixed_width 2 (day a) = fixed_width 2 (day b)"
    unfolding isoformat_fixed [OF assms(1)] isoformat_fixed [OF assms(2)]
    by (simp del: fixed_width.simps)
  with fy fm fd show ?thesis by simp
qed

text \<open>What the loop over the events leaves in \<^verbatim>\<open>by_date\<close>.\<close>

lemma getitem_update:
  "getitem (AList.update k v m) k' = (if k' = k then v else getitem m k')"
  by (simp add: getitem_def update_conv')

lemma by_date_step_goals:
  "day_goals (getitem (by_date_step e m) k) =
     day_goals (getitem m k) + (if goal_or_scored e \<and> day_key e = k then 1 else 0)"
  by (auto simp: by_date_step_def Let_def add_goal_def add_shot_def getitem_update)

lemma by_date_step_shots:
  "day_shots (getitem (by_date_step e m) k) =
     day_shots (getitem m k) + (if field_shot e \<and> day_key e = k then 1 else 0)"
  by (simp add: by_date_step_def Let_def add_goal_def add_shot_def getitem_update)

lemma by_date_step_keys:
  "fst ` set (by_date_step e m) =
     fst ` set m \<union> (if goal_or_scored e \<or> field_shot e then {day_key e} else {})"
  by (auto simp: by_date_step_def Let_def add_goal_def add_shot_def dom_update)

lemma by_date_step_distinct:
  "distinct (map fst m) \<Longrightarrow> distinct (map fst (by_date_step e m))"
  by (simp add: by_date_step_def Let_def add_goal_def add_shot_def distinct_update)

lemma fold_step_goals:
  "day_goals (getitem (fold by_date_step es m) k) =
     day_goals (getitem m k) + int (length (filter (\<lambda>e. goal_or_scored e \<and> day_key e = k) es))"
  by (induction es arbitrary: m) (simp_all add: by_date_step_goals)

lemma fold_step_shots:
  "day_shots (getitem (fold by_date_step es m) k) =
     day_shots (getitem m k) + int (length (filter (\<lambda>e. field_shot e \<and> day_key e = k) es))"
  by (induction es arbitrary: m) (simp_all add: by_date_step_shots)

lemma fold_step_keys:
  "fst ` set (fold by_date_step es m) =
     fst ` set m \<union> day_key ` {e \<in> set es. goal_or_scored e \<or> field_shot e}"
  by (induction es arbitrary: m) (auto simp: by_date_step_keys)

lemma fold_step_distinct:
  "distinct (map fst m) \<Longrightarrow> distinct (map fst (fold by_date_step es m))"
  by (induction es arbitrary: m) (simp_all add: by_date_step_distinct)

lemma getitem_Nil: "getitem [] k = default_counts"
  by (simp add: getitem_def)

lemma by_date_goals:
  "day_goals (getitem (by_date es) k) =
     int (length (filter (\<lambda>e. goal_or_scored e \<and> day_key e = k) es))"
  by (simp add: by_date_def fold_step_goals getitem_Nil default_counts_def)

lemma by_date_shots:
  "day_shots (getitem (by_date es) k) =
     int (length (filter (\<lambda>e. field_shot e \<and> day_key e = k) es))"
  by (simp add: by_date_def fold_step_shots getitem_Nil default_counts_def)

lemma by_date_keys:
  "set (map fst (by_date es)) = day_key ` {e \<in> set es. goal_or_scored e \<or> field_shot e}"
  by (simp add: by_date_def fold_step_keys)

lemma by_date_distinct: "distinct (map fst (by_date es))"
  by (simp add: by_date_def fold_step_distinct)

lemma chart_data_strings:
  "sorted (labels (chart_data es)) \<and> distinct (labels (chart_data es)) \<and>
   set (labels (chart_data es)) = day_key ` {e \<in> set es. goal_or_scored e \<or> field_shot e} \<and>
   goals (chart_data es) =
     map (\<lambda>k. int (length (filter (\<lambda>e. goal_or_scored e \<and> day_key e = k) es))) (labels (chart_data es)) \<and>
   shots (chart_data es) =
     map (\<lambda>k. int (length (filter (\<lambda>e. field_shot e \<and> day_key e = k) es))) (labels (chart_data es))"
  using by_date_keys [of es] by_date_distinct [of es]
  by (simp add: chart_data_def Let_def by_date_goals by_date_shots)

lemma chart_data_dates:
  assumes fits: "list_all (\<lambda>e. fits_isoformat (event_date e)) es"
  shows "\<exists>ds. labels (chart_data es) = map isoformat ds \<and>
     sorted_wrt date_less ds \<and>
     set ds = event_date ` {e \<in> set es. goal_or_scored e \<or> field_shot e} \<and>
     goals (chart_data es) =
       map (\<lambda>d. int (length (filter (\<lambda>e. goal_or_scored e \<and> event_date e = d) es))) ds \<and>
     shots (chart_data es) =
       map (\<lambda>d. int (length (filter (\<lambda>e. field_shot e \<and> event_date e = d) es))) ds"
proof -
  define D where "D = event_date ` {e \<in> set es. goal_or_scored e \<or> field_shot e}"
  define L where "L = labels (chart_data es)"
  define ds where "ds = map (inv_into D isoformat) L"
  have fit_es: "fits_isoformat (event_date e)" if "e \<in> set es" for e
    using fits that by (simp add: list_all_iff)
  have fit_D: "fits_isoformat d" if "d \<in> D" for d
    using that fit_es by (auto simp: D_def)
  have inj: "inj_on isoformat D"
    by (rule inj_onI) (simp add: isoformat_inj fit_D)
  have setL: "set L = isoformat ` D"
    using chart_data_strings [of es] by (simp add: L_def D_def image_image)
  have sortedL: "sorted L" and distinctL: "distinct L"
    using chart_data_strings [of es] by (simp_all add: L_def)
  have inv_label: "isoformat (inv_into D isoformat l) = l" if "l \<in> set L" for l
    using that setL by (simp add: f_inv_into_f)
  have labels_eq: "L = map isoformat ds"
    unfolding ds_def by (simp add: map_idI inv_label)
  have set_ds: "set ds = D"
    unfolding ds_def using inj setL by simp
  have "sorted_wrt (<) L"
    using sortedL distinctL by (simp add: strict_sorted_iff)
  then have "sorted_wrt (\<lambda>a b. isoformat a < isoformat b) ds"
    unfolding labels_eq by (simp add: sorted_wrt_map)
  then have sorted_ds: "sorted_wrt date_less ds"
  proof (rule sorted_wrt_mono_rel [rotated])
    fix a b
    assume "a \<in> set ds" "b \<in> set ds" "isoformat a < isoformat b"
    then show "date_less a b"
      using isoformat_less [of a b] fit_D set_ds by simp
  qed
  have key_date: "day_key e = isoformat d \<longleftrightarrow> event_date e = d"
    if "e \<in> set es" "d \<in> D" for e d
    using isoformat_inj [OF fit_es [OF that(1)] fit_D [OF that(2)]] by auto
  have goals_eq: "goals (chart_data es) =
       map (\<lambda>d. int (length (filter (\<lambda>e. goal_or_scored e \<and> event_date e = d) es))) ds"
  proof -
    have "goals (chart_data es) =
        map (\<lambda>k. int (length (filter (\<lambda>e. goal_or_scored e \<and> day_key e = k) es))) (map isoformat ds)"
      using chart_data_strings [of es] labels_eq by (simp add: L_def)
    also have "\<dots> = map (\<lambda>d. int (length (filter (\<lambda>e. goal_or_scored e \<and> day_key e = isoformat d) es))) ds"
      by (simp add: comp_def)
    also have "\<dots> = map (\<lambda>d. int (length (filter (\<lambda>e. goal_or_scored e \<and> event_date e = d) es))) ds"
    proof (rule map_cong [OF refl])
      fix d assume "d \<in> set ds"
      then have "d \<in> D" by (simp add: set_ds)
      then have "filter (\<lambda>e. goal_or_scored e \<and> day_key e = isoformat d) es =
                 filter (\<lambda>e. goal_or_scored e \<and> event_date e = d) es"
        by (intro filter_cong refl) (simp add: key_date)
      then show "int (length (filter (\<lambda>e. goal_or_scored e \<and> day_key e = isoformat d) es)) =
                 int (length (filter (\<lambda>e. goal_or_scored e \<and> event_date e = d) es))"
        by simp
    qed
    finally show ?thesis .
  qed
  have shots_eq: "shots (chart_data es) =
       map (\<lambda>d. int (length (filter (\<lambda>e. field_shot e \<and> event_date e = d) es))) ds"
  proof -
    have "shots (chart_data es) =
        map (\<lambda>k. int (length (filter (\<lambda>e. field_shot e \<and> day_key e = k) es))) (map isoformat ds)"
      using chart_data_strings [of es] labels_eq by (simp add: L_def)
    also have "\<dots> = map (\<lambda>d. int (length (filter (\<lambda>e. field_shot e \<and> day_key e = isoformat d) es))) ds"
      by (simp add: comp_def)
    also have "\<dots> = map (\<lambda>d. int (length (filter (\<lambda>e. field_shot e \<and> event_date e = d) es))) ds"
    proof (rule map_cong [OF refl])
      fix d assume "d \<in> set ds"
      then have "d \<in> D" by (simp add: set_ds)
      then have "filter (\<lambda>e. field_shot e \<and> day_key e = isoformat d) es =
                 filter (\<lambda>e. field_shot e \<and> event_date e = d) es"
        by (intro filter_cong refl) (simp add: key_date)
      then show "int (length (filter (\<lambda>e. field_shot e \<and> day_key e = isoformat d) es)) =
                 int (length (filter (\<lambda>e. field_shot e \<and> event_date e = d) es))"
        by simp
    qed
    finally show ?thesis .
  qed
  show ?thesis
    using labels_eq sorted_ds set_ds goals_eq shots_eq
    unfolding L_def D_def by (intro exI [of _ ds]) simp
qed

text \<open>Evaluating the arithmetic of doubles on numerals.\<close>

lemma quotient_of_numeral_div:
  "quotient_of (numeral a / numeral b) = Rat.normalize (numeral a, numeral b)"
  "quotient_of (1 / numeral b) = Rat.normalize (1, numeral b)"
proof -
  have "(numeral a / numeral b :: rat) = Fract (numeral a) (numeral b)"
    by (simp add: Fract_of_int_quotient)
  then show "quotient_of (numeral a / numeral b) = Rat.normalize (numeral a, numeral b)"
    by (simp only: quotient_of_Fract)
  have "(1 / numeral b :: rat) = Fract 1 (numeral b)"
    by (simp add: Fract_of_int_quotient)
  then show "quotient_of (1 / numeral b) = Rat.normalize (1, numeral b)"
    by (simp only: quotient_of_Fract)
qed

lemma floorlog2_simps:
  "floorlog 2 0 = 0"
  "floorlog 2 (Suc 0) = Suc 0"
  "floorlog 2 (numeral n) = floorlog 2 (numeral n div 2) + 1"
  using compute_floorlog [of 2 0] compute_floorlog [of 2 "Suc 0"]
    compute_floorlog [of 2 "numeral n"]
  by simp_all

lemmas binary64_eval = fl64_def fl64_ratio_def round_to_grid_def floor_log2_def
  floor_log2_from_def py_round_def round_half_even_def nearest_even_def pow2_def
  quotient_of_numeral_div Rat.normalize_def gcd_non_0_int floorlog2_simps

lemma sum_ones_append: "sum_ones p (xs @ ys) = sum_ones p xs + sum_ones p ys"
  by (simp add: sum_ones_def)

lemma sum_ones_replicate: "sum_ones p (replicate n e) = (if p e then int n else 0)"
  by (simp add: sum_ones_length)

text \<open>The percentage of 23 in 160 and of 1 in 3, as the machine computes and rounds them.\<close>

lemma percent_23_of_160:
  "fl64 (fl64 (23 / 160) * 100) = 8092405580431359 / 562949953421312"
  by (simp add: binary64_eval)

lemma round_23_of_160:
  "py_round (8092405580431359 / 562949953421312) 2 = 8089590830664253 / 562949953421312"
  by (simp add: binary64_eval)

lemma double_14_37: "fl64 (1437 / 100) = 8089590830664253 / 562949953421312"
  by (simp add: binary64_eval)

lemma double_14_38: "fl64 (1438 / 100) = 8095220330198467 / 562949953421312"
  by (simp add: binary64_eval)

lemma percent_1_of_3:
  "fl64 (fl64 (1 / 3) * 100) = 2345624805922133 / 70368744177664"
  by (simp add: binary64_eval)

lemma round_1_of_3:
  "py_round (2345624805922133 / 70368744177664) 2 = 2345390243441541 / 70368744177664"
  by (simp add: binary64_eval)

lemma double_33_33: "fl64 (3333 / 100) = 2345390243441541 / 70368744177664"
  by (simp add: binary64_eval)

lemma stats_goal_percentage:
  "total_shots events \<noteq> 0 \<Longrightarrow>
   map_sum id ctx_goal_percentage (stats fa clock gs events) =
     Inr (Some (round_ndigits fa
       (fl fa (fl fa (of_int (total_goals events) / of_int (total_shots events)) * 100)) 2))"
  using stats_returns [of fa clock events gs] by (auto simp: round2_if_def)

section \<open>The properties\<close>

text \<open>
  C1. The statistics page returns, and its \<^verbatim>\<open>total_goals\<close> is the number of events
  whose position is \<^verbatim>\<open>field\<close> and that are either a \<^verbatim>\<open>goal\<close> or a scored
  \<^verbatim>\<open>shot\<close>. Consequently, on every collection, empty or not, \<^verbatim>\<open>total_goals\<close> is at
  least the number of field events of type \<^verbatim>\<open>goal\<close>, and it is at least the number of
  all events of type \<^verbatim>\<open>goal\<close> whenever every event of type \<^verbatim>\<open>goal\<close> has the position
  \<^verbatim>\<open>field\<close>. Without that condition the bound fails: a row with position \<^verbatim>\<open>keeper\<close>
  and type \<^verbatim>\<open>goal\<close> is an event of type \<^verbatim>\<open>goal\<close> that \<^verbatim>\<open>total_goals\<close> leaves out.
\<close>

theorem total_goals_count:
  "(\<exists>c. stats fa clock (gs :: 't training_goal list) events = Inr c \<and>
        ctx_total_goals c = total_goals events) \<and>
   total_goals events =
     int (length (filter (\<lambda>e. position e = ''field'' \<and>
            (event_type e = ''goal'' \<or> (event_type e = ''shot'' \<and> scored e))) events)) \<and>
   int (length (filter (\<lambda>e. position e = ''field'' \<and> event_type e = ''goal'') events))
     \<le> total_goals events \<and>
   (list_all (\<lambda>e. event_type e = ''goal'' \<longrightarrow> position e = ''field'') events \<longrightarrow>
      goal_type_count events \<le> total_goals events)"
proof (intro conjI impI)
  show "\<exists>c. stats fa clock gs events = Inr c \<and> ctx_total_goals c = total_goals events"
    using stats_returns [of fa clock events gs] by auto
  show eq: "total_goals events =
     int (length (filter (\<lambda>e. position e = ''field'' \<and>
            (event_type e = ''goal'' \<or> (event_type e = ''shot'' \<and> scored e))) events))"
    by (simp add: total_goals_def sum_ones_length)
  have "sum_ones (\<lambda>e. position e = ''field'' \<and> event_type e = ''goal'') events
      \<le> total_goals events"
    unfolding total_goals_def by (rule sum_ones_mono_pred) simp
  then show "int (length (filter (\<lambda>e. position e = ''field'' \<and> event_type e = ''goal'') events))
      \<le> total_goals events"
    by (simp add: sum_ones_length)
  assume "list_all (\<lambda>e. event_type e = ''goal'' \<longrightarrow> position e = ''field'') events"
  then have "\<forall>e\<in>set events. event_type e = ''goal'' \<longrightarrow> position e = ''field''"
    by (simp add: list_all_iff)
  from filter_goal_le [OF this] show "goal_type_count events \<le> total_goals events"
    unfolding eq goal_type_count_def by simp
qed

theorem total_goals_count_witness:
  "list_all (\<lambda>e. event_type e = ''goal'' \<longrightarrow> position e = ''field'')
     [mk_event ''field'' ''goal'' False False 2024 5 17,
      mk_event ''field'' ''shot'' True True 2024 5 17,
      mk_event ''keeper'' ''save'' False False 2024 5 18] \<and>
   goal_type_count
     [mk_event ''field'' ''goal'' False False 2024 5 17,
      mk_event ''field'' ''shot'' True True 2024 5 17,
      mk_event ''keeper'' ''save'' False False 2024 5 18] = 1 \<and>
   total_goals [mk_event ''field'' ''goal'' False False 2024 5 17,
          mk_event ''field'' ''shot'' True True 2024 5 17,
          mk_event ''keeper'' ''save'' False False 2024 5 18] = 2"
  using total_goals_count [of exact_arith noon_clock "[] :: unit training_goal list"
          "[mk_event ''field'' ''goal'' False False 2024 5 17,
            mk_event ''field'' ''shot'' True True 2024 5 17,
            mk_event ''keeper'' ''save'' False False 2024 5 18]"]
  by (simp add: mk_event_def goal_type_count_def)

theorem goal_events_bound_counterexample:
  "goal_type_count
     [mk_event ''field'' ''goal'' False False 2024 5 17,
      mk_event ''keeper'' ''goal'' False False 2024 5 17] = 2 \<and>
   total_goals
     [mk_event ''field'' ''goal'' False False 2024 5 17,
      mk_event ''keeper'' ''goal'' False False 2024 5 17] = 1 \<and>
   \<not> goal_type_count
         [mk_event ''field'' ''goal'' False False 2024 5 17,
          mk_event ''keeper'' ''goal'' False False 2024 5 17]
      \<le> total_goals
           [mk_event ''field'' ''goal'' False False 2024 5 17,
            mk_event ''keeper'' ''goal'' False False 2024 5 17]"
  by (simp add: total_goals_def sum_ones_def mk_event_def goal_type_count_def)

text \<open>
  C2. Each of \<^verbatim>\<open>goal_percentage\<close>, \<^verbatim>\<open>on_target_percentage\<close> and
  \<^verbatim>\<open>save_percentage\<close> is computed without a fault; it is \<^verbatim>\<open>None\<close> exactly when its
  denominator (\<^verbatim>\<open>total_shots\<close> for the first two, \<^verbatim>\<open>shots_on_against\<close> for the last)
  is zero, never a 0 in its place, and otherwise it is numerator / denominator * 100 in
  the arithmetic of the interpreter (the quotient rounded, then the product rounded).
  The values on the statistics page are \<^verbatim>\<open>None\<close> in exactly the same cases.
\<close>

theorem percentages_none_iff:
  "goal_percentage fa events =
     Inr (if total_shots events = 0 then None
          else Some (fl fa (fl fa (of_int (total_goals events) / of_int (total_shots events)) * 100))) \<and>
   on_target_percentage fa events =
     Inr (if total_shots events = 0 then None
          else Some (fl fa (fl fa (of_int (total_on_target events) / of_int (total_shots events)) * 100))) \<and>
   save_percentage fa events =
     Inr (if shots_on_against events = 0 then None
          else Some (fl fa (fl fa (of_int (saves events) / of_int (shots_on_against events)) * 100))) \<and>
   (\<exists>c. stats fa clock (gs :: 't training_goal list) events = Inr c \<and>
      (ctx_goal_percentage c = None \<longleftrightarrow> total_shots events = 0) \<and>
      (ctx_on_target_percentage c = None \<longleftrightarrow> total_shots events = 0) \<and>
      (ctx_save_percentage c = None \<longleftrightarrow> shots_on_against events = 0))"
proof (intro conjI)
  show "\<exists>c. stats fa clock gs events = Inr c \<and>
      (ctx_goal_percentage c = None \<longleftrightarrow> total_shots events = 0) \<and>
      (ctx_on_target_percentage c = None \<longleftrightarrow> total_shots events = 0) \<and>
      (ctx_save_percentage c = None \<longleftrightarrow> shots_on_against events = 0)"
    using stats_returns [of fa clock events gs] by (auto simp: round2_if_def)
qed (simp_all add: goal_percentage_def on_target_percentage_def save_percentage_def percent_if_eq)

theorem percentages_none_iff_witness:
  "goal_percentage exact_arith [] = Inr None \<and>
   save_percentage exact_arith [] = Inr None \<and>
   goal_percentage exact_arith
     [mk_event ''field'' ''shot'' True True 2024 5 17,
      mk_event ''field'' ''shot'' False False 2024 5 17] = Inr (Some 50) \<and>
   on_target_percentage exact_arith
     [mk_event ''field'' ''shot'' True True 2024 5 17,
      mk_event ''field'' ''shot'' False False 2024 5 17] = Inr (Some 50) \<and>
   save_percentage exact_arith
     [mk_event ''field'' ''shot'' True True 2024 5 17,
      mk_event ''field'' ''shot'' False False 2024 5 17] = Inr None"
  using percentages_none_iff [of exact_arith "[]" noon_clock "[] :: unit training_goal list"]
    percentages_none_iff [of exact_arith "[mk_event ''field'' ''shot'' True True 2024 5 17,
      mk_event ''field'' ''shot'' False False 2024 5 17]" noon_clock "[] :: unit training_goal list"]
  by (simp add: total_shots_def total_goals_def total_on_target_def shots_on_against_def saves_def
      sum_ones_def mk_event_def exact_arith_def)

text \<open>
  C3. The series of the statistics page are three parallel sequences of equal length.
  The labels are the ISO dates of the events that are a field shot or a field goal or
  scored shot, each once, in ascending order; the goal count and the shot count at a
  label are the numbers of such events on that date, 0 where the date only has events of
  the other kind. On dates of the interpreter (year at most 9999) the ascending order of
  the labels is the calendar order: the labels are the formats of the dates carrying a
  qualifying event, each once, earliest first, with their two counts beside them.
\<close>

theorem chart_data_series:
  "(\<exists>c. stats fa clock (gs :: 't training_goal list) events = Inr c \<and>
        ctx_chart_data c = chart_data events) \<and>
   length (goals (chart_data events)) = length (labels (chart_data events)) \<and>
   length (shots (chart_data events)) = length (labels (chart_data events)) \<and>
   sorted (labels (chart_data events)) \<and> distinct (labels (chart_data events)) \<and>
   set (labels (chart_data events)) =
     day_key ` {e \<in> set events. goal_or_scored e \<or> field_shot e} \<and>
   goals (chart_data events) =
     map (\<lambda>k. int (length (filter (\<lambda>e. goal_or_scored e \<and> day_key e = k) events)))
       (labels (chart_data events)) \<and>
   shots (chart_data events) =
     map (\<lambda>k. int (length (filter (\<lambda>e. field_shot e \<and> day_key e = k) events)))
       (labels (chart_data events)) \<and>
   (list_all (\<lambda>e. fits_isoformat (event_date e)) events \<longrightarrow>
      (\<exists>ds. labels (chart_data events) = map isoformat ds \<and>
         sorted_wrt date_less ds \<and>
         set ds = event_date ` {e \<in> set events. goal_or_scored e \<or> field_shot e} \<and>
         goals (chart_data events) =
           map (\<lambda>d. int (length (filter (\<lambda>e. goal_or_scored e \<and> event_date e = d) events))) ds \<and>
         shots (chart_data events) =
           map (\<lambda>d. int (length (filter (\<lambda>e. field_shot e \<and> event_date e = d) events))) ds))"
proof -
  have page: "\<exists>c. stats fa clock gs events = Inr c \<and> ctx_chart_data c = chart_data events"
    using stats_returns [of fa clock events gs] by auto
  note strings = chart_data_strings [of events]
  have len_goals: "length (goals (chart_data events)) = length (labels (chart_data events))"
    by (simp add: chart_data_def Let_def)
  have len_shots: "length (shots (chart_data events)) = length (labels (chart_data events))"
    by (simp add: chart_data_def Let_def)
  from page len_goals len_shots strings chart_data_dates [of events]
  show ?thesis by blast
qed

theorem chart_data_series_witness:
  "list_all (\<lambda>e. fits_isoformat (event_date e))
     [mk_event ''field'' ''shot'' True True 2024 6 1,
      mk_event ''keeper'' ''save'' False False 2024 5 20,
      mk_event ''field'' ''goal'' False False 2024 5 17,
      mk_event ''field'' ''shot'' False False 2024 6 1] \<and>
   chart_data
     [mk_event ''field'' ''shot'' True True 2024 6 1,
      mk_event ''keeper'' ''save'' False False 2024 5 20,
      mk_event ''field'' ''goal'' False False 2024 5 17,
      mk_event ''field'' ''shot'' False False 2024 6 1] =
     \<lparr>labels = [''2024-05-17'', ''2024-06-01''], goals = [1, 1], shots = [0, 2]\<rparr> \<and>
   (\<exists>ds. [''2024-05-17'', ''2024-06-01''] = map isoformat ds \<and> sorted_wrt date_less ds)"
proof -
  let ?evs = "[mk_event ''field'' ''shot'' True True 2024 6 1,
      mk_event ''keeper'' ''save'' False False 2024 5 20,
      mk_event ''field'' ''goal'' False False 2024 5 17,
      mk_event ''field'' ''shot'' False False 2024 6 1]"
  have dates: "list_all (\<lambda>e. fits_isoformat (event_date e)) ?evs"
    by (simp add: mk_event_def date_of_def fits_isoformat_def)
  have series: "chart_data ?evs =
      \<lparr>labels = [''2024-05-17'', ''2024-06-01''], goals = [1, 1], shots = [0, 2]\<rparr>"
    by (simp add: chart_data_def by_date_def by_date_step_def add_goal_def add_shot_def getitem_def
        isoformat_def zero_pad_def decimal.simps digit_char_def mk_event_def date_of_def
        default_counts_def Let_def char_of_def bit_iff_odd)
  have "list_all (\<lambda>e. fits_isoformat (event_date e)) ?evs \<longrightarrow>
      (\<exists>ds. labels (chart_data ?evs) = map isoformat ds \<and>
         sorted_wrt date_less ds \<and>
         set ds = event_date ` {e \<in> set ?evs. goal_or_scored e \<or> field_shot e} \<and>
         goals (chart_data ?evs) =
           map (\<lambda>d. int (length (filter (\<lambda>e. goal_or_scored e \<and> event_date e = d) ?evs))) ds \<and>
         shots (chart_data ?evs) =
           map (\<lambda>d. int (length (filter (\<lambda>e. field_shot e \<and> event_date e = d) ?evs))) ds)"
    using chart_data_series [of exact_arith noon_clock "[] :: unit training_goal list" ?evs]
    by (elim conjE)
  with dates obtain ds where "labels (chart_data ?evs) = map isoformat ds" "sorted_wrt date_less ds"
    by blast
  then have "\<exists>ds. [''2024-05-17'', ''2024-06-01''] = map isoformat ds \<and> sorted_wrt date_less ds"
    unfolding series by auto
  with dates series show ?thesis by (intro conjI)
qed

text \<open>
  C4. For the metric \<^verbatim>\<open>goals_per_week\<close> the progress is the number of field events
  that are a goal or a scored shot and whose date is today's date or later, dates
  compared as (year, month, day). It is not a window of the last seven days: an event
  dated before today, yesterday's included, adds nothing.
\<close>

theorem goals_per_week_from_today:
  "compute_goal_progress fa utcnow ''goals_per_week'' tgt events =
     Inr (IntValue (int (length (filter
       (\<lambda>e. position e = ''field'' \<and>
            (event_type e = ''goal'' \<or> (event_type e = ''shot'' \<and> scored e)) \<and>
            date_ge (date_of (timestamp e)) (date_of utcnow)) events)))) \<and>
   (date_ge a b \<longleftrightarrow>
      year b < year a \<or>
      (year a = year b \<and> (month b < month a \<or> (month a = month b \<and> day b \<le> day a)))) \<and>
   (date_less (date_of (timestamp e)) (date_of utcnow) \<longrightarrow>
      compute_goal_progress fa utcnow ''goals_per_week'' tgt (events @ [e]) =
      compute_goal_progress fa utcnow ''goals_per_week'' tgt events)"
proof (intro conjI impI)
  show "date_ge a b \<longleftrightarrow>
      year b < year a \<or>
      (year a = year b \<and> (month b < month a \<or> (month a = month b \<and> day b \<le> day a)))"
    unfolding date_ge_def date_less_def by auto
qed (simp_all add: compute_goal_progress_def date_ge_def)

theorem goals_per_week_from_today_witness:
  "date_less (date_of (timestamp (mk_event ''field'' ''goal'' False False 2024 5 16))) (date_of noon) \<and>
   compute_goal_progress exact_arith noon ''goals_per_week'' (3 :: rat)
     [mk_event ''field'' ''goal'' False False 2024 5 17,
      mk_event ''field'' ''shot'' True True 2024 6 1,
      mk_event ''field'' ''goal'' False False 2024 5 16] = Inr (IntValue 2) \<and>
   compute_goal_progress exact_arith noon ''goals_per_week'' (3 :: rat)
     [mk_event ''field'' ''goal'' False False 2024 5 17,
      mk_event ''field'' ''shot'' True True 2024 6 1] = Inr (IntValue 2)"
  using goals_per_week_from_today [of exact_arith noon "3 :: rat"
      "[mk_event ''field'' ''goal'' False False 2024 5 17,
        mk_event ''field'' ''shot'' True True 2024 6 1]"
      "\<lparr>year = 2024, month = 5, day = 16\<rparr>" "\<lparr>year = 2024, month = 5, day = 17\<rparr>"
      "mk_event ''field'' ''goal'' False False 2024 5 16"]
  by (simp add: mk_event_def noon_def date_of_def date_less_def date_ge_def)

text \<open>
  C5. For every metric string other than \<^verbatim>\<open>goals_per_week\<close>, \<^verbatim>\<open>save_percentage\<close> and
  \<^verbatim>\<open>shots_per_training\<close>, \<^verbatim>\<open>compute_goal_progress\<close> returns \<^verbatim>\<open>None\<close> and raises
  nothing, whatever the events.
\<close>

theorem unknown_metric_none:
  "m \<noteq> ''goals_per_week'' \<Longrightarrow> m \<noteq> ''save_percentage'' \<Longrightarrow> m \<noteq> ''shots_per_training'' \<Longrightarrow>
   compute_goal_progress fa utcnow m tgt events = Inr NoneValue"
  by (simp add: compute_goal_progress_def)

theorem unknown_metric_none_witness:
  "compute_goal_progress exact_arith noon ''unknown_metric'' (5 :: rat)
     [mk_event ''field'' ''goal'' False False 2024 5 17] = Inr NoneValue"
  using unknown_metric_none [of "''unknown_metric''" exact_arith noon "5 :: rat"
      "[mk_event ''field'' ''goal'' False False 2024 5 17]"]
  by simp

text \<open>
  C6. A submission that carries a position and an event type is accepted, and the event
  appended to the store with that position and type, if and only if the position is
  \<^verbatim>\<open>field\<close> and the type one of shot, goal, assist, pass, or the position is
  \<^verbatim>\<open>keeper\<close> and the type one of shot_on_goal_against, save, concede. Every other
  combination is answered with a redirect back to the form and an error message, and
  the store is left as it was.
\<close>

theorem add_event_accepts_iff:
  assumes "form ''position'' = Some pos" and "form ''event_type'' = Some etype"
  shows "((\<exists>ev. add_event POST form utcnow db =
              Inr (Redirect ''index'' ''Event added!'' ''success'', db @ [ev]) \<and>
            position ev = pos \<and> event_type ev = etype)
          \<longleftrightarrow> (pos = ''field'' \<and> etype \<in> {''shot'', ''goal'', ''assist'', ''pass''}) \<or>
              (pos = ''keeper'' \<and> etype \<in> {''shot_on_goal_against'', ''save'', ''concede''})) \<and>
         (\<not> ((pos = ''field'' \<and> etype \<in> {''shot'', ''goal'', ''assist'', ''pass''}) \<or>
              (pos = ''keeper'' \<and> etype \<in> {''shot_on_goal_against'', ''save'', ''concede''}))
          \<longrightarrow> (\<exists>msg. add_event POST form utcnow db = Inr (Redirect ''add_event'' msg ''danger'', db)))"
  using assms
  by (auto simp: add_event_def Let_def OUTFIELD_TYPES_def KEEPER_TYPES_def)

theorem add_event_accepts_iff_witness:
  "add_event POST [''position'' \<mapsto> ''keeper'', ''event_type'' \<mapsto> ''save''] noon [] =
     Inr (Redirect ''index'' ''Event added!'' ''success'',
          [\<lparr>event_id = 1, timestamp = noon, position = ''keeper'', event_type = ''save'',
            on_target = False, scored = False, event_notes = None\<rparr>]) \<and>
   add_event POST [''position'' \<mapsto> ''keeper'', ''event_type'' \<mapsto> ''goal''] noon [] =
     Inr (Redirect ''add_event'' ''Invalid keeper event type'' ''danger'', [])"
  using add_event_accepts_iff [of "[''position'' \<mapsto> ''keeper'', ''event_type'' \<mapsto> ''save'']"
      "''keeper''" "''save''" noon "[]"]
    add_event_accepts_iff [of "[''position'' \<mapsto> ''keeper'', ''event_type'' \<mapsto> ''goal'']"
      "''keeper''" "''goal''" noon "[]"]
  by (simp add: add_event_def KEEPER_TYPES_def OUTFIELD_TYPES_def next_id_def py_strip_def)

text \<open>
  C7. Where its denominator is not zero, each reported percentage is
  \<^verbatim>\<open>round(n / d * 100, 2)\<close> in the arithmetic of the interpreter: the quotient is rounded
  to a double, its product with 100 is rounded to a double, and \<^verbatim>\<open>round\<close> takes that
  double to the nearest decimal with 2 places (a tie to the even last digit) and gives
  the double nearest to it. For 1 goal out of 3 shots this is 33.33, the double nearest
  to 33.33. It is not always the rounding of the exact ratio times 100: for 23 goals out
  of 160 shots the exact value 14.375 rounds to 14.38, half up and half to even alike,
  but the product computed is just below 14.375 and the page shows 14.37.
\<close>

theorem reported_percentages_rounding:
  "(\<exists>c. stats fa clock (gs :: 't training_goal list) events = Inr c \<and>
      ctx_goal_percentage c =
        (if total_shots events = 0 then None
         else Some (round_ndigits fa
           (fl fa (fl fa (of_int (total_goals events) / of_int (total_shots events)) * 100)) 2)) \<and>
      ctx_on_target_percentage c =
        (if total_shots events = 0 then None
         else Some (round_ndigits fa
           (fl fa (fl fa (of_int (total_on_target events) / of_int (total_shots events)) * 100)) 2)) \<and>
      ctx_save_percentage c =
        (if shots_on_against events = 0 then None
         else Some (round_ndigits fa
           (fl fa (fl fa (of_int (saves events) / of_int (shots_on_against events)) * 100)) 2))) \<and>
   fl binary64_arith x = fl64 x \<and>
   round_ndigits binary64_arith x 2 =
     fl64 (of_int (round_half_even (fst (quotient_of x) * 100) (snd (quotient_of x))) / 100) \<and>
   map_sum id ctx_goal_percentage
     (stats binary64_arith noon_clock ([] :: unit training_goal list)
        [mk_event ''field'' ''shot'' True True 2024 5 17,
         mk_event ''field'' ''shot'' False False 2024 5 17,
         mk_event ''field'' ''shot'' False False 2024 5 17]) = Inr (Some (fl64 (3333 / 100)))"
proof (intro conjI)
  show "\<exists>c. stats fa clock gs events = Inr c \<and>
      ctx_goal_percentage c =
        (if total_shots events = 0 then None
         else Some (round_ndigits fa
           (fl fa (fl fa (of_int (total_goals events) / of_int (total_shots events)) * 100)) 2)) \<and>
      ctx_on_target_percentage c =
        (if total_shots events = 0 then None
         else Some (round_ndigits fa
           (fl fa (fl fa (of_int (total_on_target events) / of_int (total_shots events)) * 100)) 2)) \<and>
      ctx_save_percentage c =
        (if shots_on_against events = 0 then None
         else Some (round_ndigits fa
           (fl fa (fl fa (of_int (saves events) / of_int (shots_on_against events)) * 100)) 2))"
    using stats_returns [of fa clock events gs] by (auto simp: round2_if_def)
  show "fl binary64_arith x = fl64 x"
    by (simp add: binary64_arith_def)
  show "round_ndigits binary64_arith x 2 =
     fl64 (of_int (round_half_even (fst (quotient_of x) * 100) (snd (quotient_of x))) / 100)"
    by (simp add: binary64_arith_def py_round_def)
  let ?evs = "[mk_event ''field'' ''shot'' True True 2024 5 17,
         mk_event ''field'' ''shot'' False False 2024 5 17,
         mk_event ''field'' ''shot'' False False 2024 5 17]"
  have g: "total_goals ?evs = 1" and s: "total_shots ?evs = 3"
    by (simp_all add: total_goals_def total_shots_def sum_ones_def mk_event_def)
  have "py_round (fl64 (fl64 (1 / 3) * 100)) 2 = fl64 (3333 / 100)"
    by (simp only: percent_1_of_3 round_1_of_3 double_33_33)
  then show "map_sum id ctx_goal_percentage
     (stats binary64_arith noon_clock ([] :: unit training_goal list) ?evs) =
       Inr (Some (fl64 (3333 / 100)))"
    using stats_goal_percentage [of ?evs binary64_arith noon_clock "[] :: unit training_goal list"]
    by (simp add: g s binary64_arith_def)
qed

theorem reported_percentages_rounding_witness:
  "map_sum id ctx_goal_percentage
     (stats binary64_arith noon_clock ([] :: unit training_goal list)
        [mk_event ''field'' ''shot'' True True 2024 5 17,
         mk_event ''field'' ''shot'' False False 2024 5 17,
         mk_event ''field'' ''shot'' False False 2024 5 17]) =
     Inr (Some (2345390243441541 / 70368744177664))"
  using reported_percentages_rounding [of exact_arith noon_clock "[] :: unit training_goal list" "[]" 0]
  by (simp only: double_33_33)

theorem reported_percentage_counterexample:
  "total_goals
     (replicate 23 (mk_event ''field'' ''shot'' True True 2024 5 17) @
      replicate 137 (mk_event ''field'' ''shot'' False False 2024 5 17)) = 23 \<and>
   total_shots
     (replicate 23 (mk_event ''field'' ''shot'' True True 2024 5 17) @
      replicate 137 (mk_event ''field'' ''shot'' False False 2024 5 17)) = 160 \<and>
   (23 / 160 * 100 :: rat) = 14375 / 1000 \<and>
   round_half_even (23 * 100 * 100) 160 = 1438 \<and>
   round_half_up (23 * 100 * 100) 160 = 1438 \<and>
   map_sum id ctx_goal_percentage
     (stats binary64_arith noon_clock ([] :: unit training_goal list)
        (replicate 23 (mk_event ''field'' ''shot'' True True 2024 5 17) @
         replicate 137 (mk_event ''field'' ''shot'' False False 2024 5 17))) =
     Inr (Some (fl64 (1437 / 100))) \<and>
   fl64 (1437 / 100) \<noteq> fl64 (1438 / 100) \<and>
   fl64 (fl64 (23 / 160) * 100) < 14375 / 1000"
proof -
  let ?evs = "replicate 23 (mk_event ''field'' ''shot'' True True 2024 5 17) @
      replicate 137 (mk_event ''field'' ''shot'' False False 2024 5 17)"
  have g: "total_goals ?evs = 23" and s: "total_shots ?evs = 160"
    by (simp_all add: total_goals_def total_shots_def sum_ones_append sum_ones_replicate
        mk_event_def)
  have exact: "(23 / 160 * 100 :: rat) = 14375 / 1000"
    by simp
  have even: "round_half_even (23 * 100 * 100) 160 = 1438"
    by (simp add: round_half_even_def nearest_even_def)
  have up: "round_half_up (23 * 100 * 100) 160 = 1438"
    by (simp add: round_half_up_def)
  have "py_round (fl64 (fl64 (23 / 160) * 100)) 2 = fl64 (1437 / 100)"
    by (simp only: percent_23_of_160 round_23_of_160 double_14_37)
  then have page: "map_sum id ctx_goal_percentage
     (stats binary64_arith noon_clock ([] :: unit training_goal list) ?evs) =
       Inr (Some (fl64 (1437 / 100)))"
    using stats_goal_percentage [of ?evs binary64_arith noon_clock "[] :: unit training_goal list"]
    by (simp add: g s binary64_arith_def)
  have differ: "fl64 (1437 / 100) \<noteq> fl64 (1438 / 100)"
    by (simp only: double_14_37 double_14_38)
  have below: "fl64 (fl64 (23 / 160) * 100) < 14375 / 1000"
    by (simp add: percent_23_of_160)
  from g s exact even up page differ below show ?thesis
    by (intro conjI)
qed

text \<open>
  C8. The four fields of the JSON summary equal the aggregates of the statistics page
  computed on the same events: \<^verbatim>\<open>total_shots\<close>, \<^verbatim>\<open>total_goals\<close>,
  \<^verbatim>\<open>total_assists\<close>, and \<^verbatim>\<open>keeper_saves\<close> against \<^verbatim>\<open>saves\<close>.
\<close>

theorem api_stats_agrees:
  "\<exists>c. stats fa clock (gs :: 't training_goal list) events = Inr c \<and>
     json_total_shots (api_stats events) = ctx_total_shots c \<and>
     json_total_goals (api_stats events) = ctx_total_goals c \<and>
     json_total_assists (api_stats events) = ctx_total_assists c \<and>
     json_keeper_saves (api_stats events) = ctx_saves c"
  using stats_returns [of fa clock events gs]
  by (auto simp: api_stats_def total_shots_def total_goals_def total_assists_def saves_def)

text \<open>
  C9. \<^verbatim>\<open>total_on_target\<close> never exceeds \<^verbatim>\<open>total_shots\<close>. Hence, when rounding to a
  double is monotone and leaves the integers up to \<open>2 ^ 53\<close> alone,
  \<^verbatim>\<open>on_target_percentage\<close> lies between 0 and 100 whenever it is defined. There is
  no such bound for \<^verbatim>\<open>save_percentage\<close>: saves are counted apart from the shots on goal
  against, and some events give more than 100.
\<close>

theorem on_target_percentage_bounds:
  "total_on_target events \<le> total_shots events \<and>
   (rounds_like_double (fl fa) \<longrightarrow>
      (\<forall>p. on_target_percentage fa events = Inr (Some p) \<longrightarrow> 0 \<le> p \<and> p \<le> 100) \<and>
      (\<exists>evs p. save_percentage fa evs = Inr (Some p) \<and> 100 < p))"
proof (intro conjI impI allI)
  show "total_on_target events \<le> total_shots events" by (rule on_target_le_shots)
next
  fix p
  assume f: "rounds_like_double (fl fa)" and p: "on_target_percentage fa events = Inr (Some p)"
  from p have d: "total_shots events \<noteq> 0"
    and eq: "p = fl fa (fl fa (of_int (total_on_target events) / of_int (total_shots events)) * 100)"
    by (auto simp: on_target_percentage_def percent_if_eq split: if_splits)
  have "0 \<le> total_on_target events" by (simp add: total_on_target_def sum_ones_nonneg)
  from rounded_percent_bounds [OF f this on_target_le_shots d]
  show "0 \<le> p" and "p \<le> 100" unfolding eq by simp_all
next
  assume f: "rounds_like_double (fl fa)"
  have exact: "\<And>k::int. \<bar>k\<bar> \<le> 2 ^ 53 \<Longrightarrow> fl fa (of_int k) = of_int k"
    using f by (simp add: rounds_like_double_def)
  have f2: "fl fa 2 = 2" using exact [of 2] by simp
  have f200: "fl fa 200 = 200" using exact [of 200] by simp
  let ?evs = "[mk_event ''keeper'' ''save'' False False 2024 5 17,
               mk_event ''keeper'' ''save'' False False 2024 5 17,
               mk_event ''keeper'' ''shot_on_goal_against'' False False 2024 5 17]"
  have "save_percentage fa ?evs = Inr (Some 200)"
    by (simp add: save_percentage_def percent_if_eq saves_def shots_on_against_def
        sum_ones_def mk_event_def f2 f200)
  then show "\<exists>evs p. save_percentage fa evs = Inr (Some p) \<and> 100 < p"
    by (intro exI [of _ ?evs] exI [of _ 200]) simp
qed

theorem on_target_percentage_bounds_witness:
  "rounds_like_double (fl coarse_arith) \<and>
   on_target_percentage coarse_arith
     [mk_event ''field'' ''shot'' True False 2024 5 17,
      mk_event ''field'' ''shot'' False False 2024 5 17,
      mk_event ''field'' ''shot'' False False 2024 5 18] = Inr (Some (8525 / 256)) \<and>
   (0::rat) \<le> 8525 / 256 \<and> (8525 / 256 :: rat) \<le> 100"
proof -
  have ev: "on_target_percentage coarse_arith
     [mk_event ''field'' ''shot'' True False 2024 5 17,
      mk_event ''field'' ''shot'' False False 2024 5 17,
      mk_event ''field'' ''shot'' False False 2024 5 18] = Inr (Some (8525 / 256))"
    by (simp add: on_target_percentage_def percent_if_eq total_on_target_def total_shots_def
        sum_ones_def mk_event_def coarse_arith_def floor_eq_iff)
  from on_target_percentage_bounds [of
      "[mk_event ''field'' ''shot'' True False 2024 5 17,
        mk_event ''field'' ''shot'' False False 2024 5 17,
        mk_event ''field'' ''shot'' False False 2024 5 18]" coarse_arith]
    coarse_rounds_like_double ev
  show ?thesis by blast
qed

text \<open>
  C10. Every count on the statistics page is monotone under extending the input: with
  one more event, placed anywhere in the collection, none of \<^verbatim>\<open>total_shots\<close>,
  \<^verbatim>\<open>total_on_target\<close>, \<^verbatim>\<open>total_goals\<close>, \<^verbatim>\<open>total_assists\<close>, \<^verbatim>\<open>total_passes\<close>,
  \<^verbatim>\<open>shots_on_against\<close>, \<^verbatim>\<open>saves\<close> and \<^verbatim>\<open>goals_allowed\<close> gets smaller.
\<close>

theorem counts_monotone:
  "\<exists>c c'. stats fa clock (gs :: 't training_goal list) (xs @ ys) = Inr c \<and>
     stats fa clock gs (xs @ e # ys) = Inr c' \<and>
     ctx_total_shots c \<le> ctx_total_shots c' \<and>
     ctx_total_on_target c \<le> ctx_total_on_target c' \<and>
     ctx_total_goals c \<le> ctx_total_goals c' \<and>
     ctx_total_assists c \<le> ctx_total_assists c' \<and>
     ctx_total_passes c \<le> ctx_total_passes c' \<and>
     ctx_shots_on_against c \<le> ctx_shots_on_against c' \<and>
     ctx_saves c \<le> ctx_saves c' \<and>
     ctx_goals_allowed c \<le> ctx_goals_allowed c'"
proof -
  obtain c where c: "stats fa clock gs (xs @ ys) = Inr c"
    "ctx_total_shots c = total_shots (xs @ ys)"
    "ctx_total_on_target c = total_on_target (xs @ ys)"
    "ctx_total_goals c = total_goals (xs @ ys)"
    "ctx_total_assists c = total_assists (xs @ ys)"
    "ctx_total_passes c = total_passes (xs @ ys)"
    "ctx_shots_on_against c = shots_on_against (xs @ ys)"
    "ctx_saves c = saves (xs @ ys)"
    "ctx_goals_allowed c = goals_allowed (xs @ ys)"
    using stats_returns [of fa clock "xs @ ys" gs] by auto
  obtain c' where c': "stats fa clock gs (xs @ e # ys) = Inr c'"
    "ctx_total_shots c' = total_shots (xs @ e # ys)"
    "ctx_total_on_target c' = total_on_target (xs @ e # ys)"
    "ctx_total_goals c' = total_goals (xs @ e # ys)"
    "ctx_total_assists c' = total_assists (xs @ e # ys)"
    "ctx_total_passes c' = total_passes (xs @ e # ys)"
    "ctx_shots_on_against c' = shots_on_against (xs @ e # ys)"
    "ctx_saves c' = saves (xs @ e # ys)"
    "ctx_goals_allowed c' = goals_allowed (xs @ e # ys)"
    using stats_returns [of fa clock "xs @ e # ys" gs] by auto
  show ?thesis
    apply (rule exI [of _ c], rule exI [of _ c'])
    unfolding c c'
    unfolding total_shots_def total_on_target_def total_goals_def total_assists_def
      total_passes_def shots_on_against_def saves_def goals_allowed_def conceded_def
    by (intro conjI sum_ones_insert_le refl)
qed

end
